theory Spec2Isabelle
  imports Main "HOL-Library.Word"
begin

section \<open>Characters and strings\<close>

text \<open>
  Python strings are sequences of code points. The model covers the code points below 256:
  a \<^typ>\<open>char\<close> is read as the code point \<open>of_char c\<close>, a \<^typ>\<open>string\<close> is a Python
  \<^verbatim>\<open>str\<close>. The character classes are the ones the \<^verbatim>\<open>re\<close> module uses for \<^verbatim>\<open>str\<close>
  patterns (\<^verbatim>\<open>\d\<close>, \<^verbatim>\<open>\s\<close>, \<^verbatim>\<open>\w\<close>), restricted to that range.
\<close>

definition ord :: "char \<Rightarrow> nat" where
  "ord c = of_char c"

definition is_digit :: "char \<Rightarrow> bool" where
  "is_digit c = (48 \<le> ord c \<and> ord c \<le> 57)"

definition is_space :: "char \<Rightarrow> bool" where
  "is_space c = ((9 \<le> ord c \<and> ord c \<le> 13) \<or> (28 \<le> ord c \<and> ord c \<le> 32)
     \<or> ord c = 133 \<or> ord c = 160)"

definition is_nonspace :: "char \<Rightarrow> bool" where
  "is_nonspace c = (\<not> is_space c)"

definition is_alnum :: "char \<Rightarrow> bool" where
  "is_alnum c = (is_digit c \<or> (65 \<le> ord c \<and> ord c \<le> 90) \<or> (97 \<le> ord c \<and> ord c \<le> 122)
     \<or> ord c = 170 \<or> ord c = 178 \<or> ord c = 179 \<or> ord c = 181 \<or> ord c = 185 \<or> ord c = 186
     \<or> (188 \<le> ord c \<and> ord c \<le> 190) \<or> (192 \<le> ord c \<and> ord c \<le> 214)
     \<or> (216 \<le> ord c \<and> ord c \<le> 246) \<or> 248 \<le> ord c)"

definition is_word :: "char \<Rightarrow> bool" where
  "is_word c = (is_alnum c \<or> c = CHR ''_'')"

text \<open>\<^verbatim>\<open>str.lower\<close> on one character (the ASCII letters and the Latin-1 capitals).\<close>

definition lower_char :: "char \<Rightarrow> char" where
  "lower_char c = (if (65 \<le> ord c \<and> ord c \<le> 90) \<or> (192 \<le> ord c \<and> ord c \<le> 214)
       \<or> (216 \<le> ord c \<and> ord c \<le> 222)
     then char_of (ord c + 32) else c)"

definition lower :: "string \<Rightarrow> string" where
  "lower s = map lower_char s"

text \<open>\<^verbatim>\<open>str.strip()\<close>: whitespace removed at both ends.\<close>

definition strip :: "string \<Rightarrow> string" where
  "strip s = rev (dropWhile is_space (rev (dropWhile is_space s)))"

text \<open>\<^verbatim>\<open>str(n)\<close> for a natural number, and \<^verbatim>\<open>'%0wd' % n\<close>.\<close>

definition digit_char :: "nat \<Rightarrow> char" where
  "digit_char n = ''0123456789'' ! (n mod 10)"

function str_nat :: "nat \<Rightarrow> string" where
  "str_nat n = (if n < 10 then [digit_char n] else str_nat (n div 10) @ [digit_char n])"
  by pat_completeness auto
termination
  by (relation "measure id") auto

declare str_nat.simps [simp del]

definition zero_pad :: "nat \<Rightarrow> nat \<Rightarrow> string" where
  "zero_pad w n = replicate (w - length (str_nat n)) CHR ''0'' @ str_nat n"

text \<open>\<^verbatim>\<open>int(s)\<close> on a string of decimal digits with optional surrounding whitespace.\<close>

definition py_int :: "string \<Rightarrow> nat" where
  "py_int s = foldl (\<lambda>a c. 10 * a + (ord c - 48)) 0 (strip s)"

section \<open>Exceptions and logging\<close>

datatype exn_class = ValueError | TypeError | AttributeError | KeyError
  | HTTPError | ConnectionError | OSError | ParseError | PDFError | IntegrityError

text \<open>A raised exception: its class and \<^verbatim>\<open>str(e)\<close>.\<close>

datatype error = Raise exn_class string

fun exn_str :: "error \<Rightarrow> string" where
  "exn_str (Raise k msg) = msg"

fun exn_is :: "exn_class \<Rightarrow> error \<Rightarrow> bool" where
  "exn_is k (Raise k' msg) = (k = k')"

text \<open>One call of \<^verbatim>\<open>logging.debug/info/warning/error\<close>, with the formatted message.\<close>

datatype log_entry = LDebug string | LInfo string | LWarning string | LError string

type_synonym log = "log_entry list"

fun is_error :: "log_entry \<Rightarrow> bool" where
  "is_error (LError msg) = True"
| "is_error e = False"

section \<open>Regular expressions\<close>

text \<open>
  A backtracking matcher for the fragment of \<^verbatim>\<open>re\<close> the program (and \<^verbatim>\<open>strptime\<close>) uses:
  literals, character classes, sequence, alternation, the greedy \<^verbatim>\<open>?\<close>, greedy \<^verbatim>\<open>*\<close> and
  \<^verbatim>\<open>+\<close> on a character class, and capture groups. \<open>rx_run r s g\<close> lists every way \<open>r\<close>
  matches a prefix of \<open>s\<close>, as (rest, groups), in the order the backtracking engine tries
  them; Python's match is the head of the list. \<open>rx_all b ms\<close> continues each of the
  matches \<open>ms\<close> with \<open>b\<close>.
\<close>

datatype rx =
    Chr char
  | Cls "char \<Rightarrow> bool"
  | Eps
  | Seq rx rx
  | Alt rx rx
  | Opt rx
  | Star "char \<Rightarrow> bool"
  | Plus "char \<Rightarrow> bool"
  | Grp string rx

type_synonym groups = "(string \<times> string) list"

text \<open>The ways \<^verbatim>\<open>P*\<close> matches at the start of \<open>s\<close>, the longest first.\<close>

fun star_run :: "(char \<Rightarrow> bool) \<Rightarrow> string \<Rightarrow> groups \<Rightarrow> (string \<times> groups) list" where
  "star_run P [] g = [([], g)]"
| "star_run P (c # cs) g = (if P c then star_run P cs g @ [(c # cs, g)] else [(c # cs, g)])"

text \<open>Every match of a group records the text it consumed of \<open>s\<close>.\<close>

fun set_group :: "string \<Rightarrow> string \<Rightarrow> (string \<times> groups) list \<Rightarrow> (string \<times> groups) list" where
  "set_group n s [] = []"
| "set_group n s (m # ms) =
     (fst m, (n, take (length s - length (fst m)) s) # snd m) # set_group n s ms"

fun rx_run :: "rx \<Rightarrow> string \<Rightarrow> groups \<Rightarrow> (string \<times> groups) list"
  and rx_all :: "rx \<Rightarrow> (string \<times> groups) list \<Rightarrow> (string \<times> groups) list" where
  "rx_run (Chr c) s g = (case s of [] \<Rightarrow> [] | x # xs \<Rightarrow> if x = c then [(xs, g)] else [])"
| "rx_run (Cls P) s g = (case s of [] \<Rightarrow> [] | x # xs \<Rightarrow> if P x then [(xs, g)] else [])"
| "rx_run Eps s g = [(s, g)]"
| "rx_run (Seq a b) s g = rx_all b (rx_run a s g)"
| "rx_run (Alt a b) s g = rx_run a s g @ rx_run b s g"
| "rx_run (Opt a) s g = rx_run a s g @ [(s, g)]"
| "rx_run (Star P) s g = star_run P s g"
| "rx_run (Plus P) s g = (case s of [] \<Rightarrow> [] | x # xs \<Rightarrow> if P x then star_run P xs g else [])"
| "rx_run (Grp n a) s g = set_group n s (rx_run a s g)"
| "rx_all b [] = []"
| "rx_all b (m # ms) = rx_run b (fst m) (snd m) @ rx_all b ms"

text \<open>A literal string, a case-insensitive literal, and \<open>n\<close> repetitions.\<close>

fun rx_lit :: "string \<Rightarrow> rx" where
  "rx_lit [] = Eps"
| "rx_lit [c] = Chr c"
| "rx_lit (c # cs) = Seq (Chr c) (rx_lit cs)"

fun rx_ilit :: "string \<Rightarrow> rx" where
  "rx_ilit [] = Eps"
| "rx_ilit [c] = Cls (\<lambda>x. lower_char x = c)"
| "rx_ilit (c # cs) = Seq (Cls (\<lambda>x. lower_char x = c)) (rx_ilit cs)"

fun rx_rep :: "nat \<Rightarrow> rx \<Rightarrow> rx" where
  "rx_rep 0 r = Eps"
| "rx_rep (Suc 0) r = r"
| "rx_rep (Suc n) r = Seq r (rx_rep n r)"

fun rx_seq :: "rx list \<Rightarrow> rx" where
  "rx_seq [] = Eps"
| "rx_seq [r] = r"
| "rx_seq (r # rs) = Seq r (rx_seq rs)"

fun rx_alt :: "rx list \<Rightarrow> rx" where
  "rx_alt [] = Seq (Cls (\<lambda>x. False)) Eps"
| "rx_alt [r] = r"
| "rx_alt (r # rs) = Alt r (rx_alt rs)"

text \<open>\<^verbatim>\<open>re.match\<close>: the first way to match at the start. \<^verbatim>\<open>re.search\<close>: the first start
  position, from the left, at which the pattern matches. Both give the rest of the text
  after the match and the groups.\<close>

definition re_match :: "rx \<Rightarrow> string \<Rightarrow> (string \<times> groups) option" where
  "re_match r s = (case rx_run r s [] of [] \<Rightarrow> None | m # ms \<Rightarrow> Some m)"

fun re_search :: "rx \<Rightarrow> string \<Rightarrow> (string \<times> groups) option" where
  "re_search r [] = re_match r []"
| "re_search r (c # cs) =
     (case re_match r (c # cs) of Some m \<Rightarrow> Some m | None \<Rightarrow> re_search r cs)"

text \<open>\<^verbatim>\<open>match.group(n)\<close>: \<open>None\<close> when the group took no part in the match.\<close>

definition match_group :: "(string \<times> groups) \<Rightarrow> string \<Rightarrow> string option" where
  "match_group m n = map_of (snd m) n"

section \<open>Calendar dates and \<^verbatim>\<open>strptime\<close>\<close>

record date =
  year :: nat
  month :: nat
  day :: nat

definition is_leap :: "nat \<Rightarrow> bool" where
  "is_leap y = (y mod 4 = 0 \<and> (y mod 100 \<noteq> 0 \<or> y mod 400 = 0))"

definition days_in_month :: "nat \<Rightarrow> nat \<Rightarrow> nat" where
  "days_in_month y m =
     (if m = 2 then (if is_leap y then 29 else 28)
      else if m = 4 \<or> m = 6 \<or> m = 9 \<or> m = 11 then 30 else 31)"

text \<open>The constructor \<^verbatim>\<open>datetime.date(y, m, d)\<close>: a \<^verbatim>\<open>ValueError\<close> outside the calendar.\<close>

definition make_date :: "nat \<Rightarrow> nat \<Rightarrow> nat \<Rightarrow> error + date" where
  "make_date y m d =
     (if y < 1 \<or> 9999 < y then Inl (Raise ValueError ''year is out of range'')
      else if m < 1 \<or> 12 < m then Inl (Raise ValueError ''month must be in 1..12'')
      else if d < 1 \<or> days_in_month y m < d
        then Inl (Raise ValueError ''day is out of range for month'')
      else Inr \<lparr>year = y, month = m, day = d\<rparr>)"

text \<open>\<^verbatim>\<open>date.isoformat()\<close>, which is also \<^verbatim>\<open>str(date)\<close>: \<^verbatim>\<open>YYYY-MM-DD\<close>.\<close>

definition isoformat :: "date \<Rightarrow> string" where
  "isoformat d = zero_pad 4 (year d) @ ''-'' @ zero_pad 2 (month d) @ ''-'' @ zero_pad 2 (day d)"

text \<open>
  \<^verbatim>\<open>datetime.strptime(s, fmt).date()\<close> for the two formats of the program. The library
  turns the format into a regular expression (case-insensitive; a blank of the format
  becomes \<^verbatim>\<open>\s+\<close>), matches it at the start of \<open>s\<close>, raises \<^verbatim>\<open>ValueError\<close> when it does
  not match or when text is left over, and builds the date from the named groups. The
  month names are those of the C locale, longest first.
\<close>

definition chr_range :: "char \<Rightarrow> char \<Rightarrow> char \<Rightarrow> bool" where
  "chr_range a b c = (ord a \<le> ord c \<and> ord c \<le> ord b)"

definition rx_d :: rx where
  "rx_d = Grp ''d'' (rx_alt
     [Seq (Chr CHR ''3'') (Cls (chr_range CHR ''0'' CHR ''1'')),
      Seq (Cls (chr_range CHR ''1'' CHR ''2'')) (Cls is_digit),
      Seq (Chr CHR ''0'') (Cls (chr_range CHR ''1'' CHR ''9'')),
      Cls (chr_range CHR ''1'' CHR ''9''),
      Seq (Chr CHR '' '') (Cls (chr_range CHR ''1'' CHR ''9''))])"

definition rx_m :: rx where
  "rx_m = Grp ''m'' (rx_alt
     [Seq (Chr CHR ''1'') (Cls (chr_range CHR ''0'' CHR ''2'')),
      Seq (Chr CHR ''0'') (Cls (chr_range CHR ''1'' CHR ''9'')),
      Cls (chr_range CHR ''1'' CHR ''9'')])"

definition rx_Y :: rx where
  "rx_Y = Grp ''Y'' (rx_rep 4 (Cls is_digit))"

definition month_names :: "string list" where
  "month_names = [''january'', ''february'', ''march'', ''april'', ''may'', ''june'', ''july'',
     ''august'', ''september'', ''october'', ''november'', ''december'']"

definition rx_B :: rx where
  "rx_B = Grp ''B'' (rx_alt (map rx_ilit
     [''september'', ''february'', ''november'', ''december'', ''january'', ''october'',
      ''august'', ''march'', ''april'', ''june'', ''july'', ''may'']))"

text \<open>The format \<^verbatim>\<open>'%d.%m.%Y'\<close> and the format \<^verbatim>\<open>'%B %d, %Y'\<close>.\<close>

definition fmt_dmY :: rx where
  "fmt_dmY = rx_seq [rx_d, Chr CHR ''.'', rx_m, Chr CHR ''.'', rx_Y]"

definition fmt_BdY :: rx where
  "fmt_BdY = rx_seq [rx_B, Plus is_space, rx_d, Chr CHR '','', Plus is_space, rx_Y]"

fun index_of :: "'a \<Rightarrow> 'a list \<Rightarrow> nat option" where
  "index_of x [] = None"
| "index_of x (y # ys) = (if x = y then Some 0 else map_option Suc (index_of x ys))"

text \<open>The month of a match: group \<open>m\<close> as a number, or group \<open>B\<close> looked up by name.\<close>

definition found_month :: "(string \<times> groups) \<Rightarrow> nat" where
  "found_month f =
     (case match_group f ''m'' of Some s \<Rightarrow> py_int s
      | None \<Rightarrow> (case match_group f ''B'' of None \<Rightarrow> 1
          | Some b \<Rightarrow> (case index_of (lower b) month_names of Some i \<Rightarrow> Suc i | None \<Rightarrow> 1)))"

definition found_int :: "(string \<times> groups) \<Rightarrow> string \<Rightarrow> nat \<Rightarrow> nat" where
  "found_int f n dflt = (case match_group f n of Some s \<Rightarrow> py_int s | None \<Rightarrow> dflt)"

definition strptime :: "rx \<Rightarrow> string \<Rightarrow> error + date" where
  "strptime fmt s =
     (case re_match fmt s of
        None \<Rightarrow> Inl (Raise ValueError (''time data does not match format: '' @ s))
      | Some f \<Rightarrow>
          if fst f \<noteq> [] then Inl (Raise ValueError (''unconverted data remains: '' @ fst f))
          else make_date (found_int f ''Y'' 1900) (found_month f) (found_int f ''d'' 1))"

section \<open>The deadline parser\<close>

text \<open>The two patterns of \<^verbatim>\<open>parse_deadline\<close>:
  \<^verbatim>\<open>Deadline:\s*(\w+ \d{2},? \d{4})\<close> and \<^verbatim>\<open>Bewerbungsschluss:\s*(\d{2}\.\d{2}\.\d{4})\<close>.\<close>

definition deadline_rx :: rx where
  "deadline_rx = rx_seq [rx_lit ''Deadline:'', Star is_space,
     Grp ''1'' (rx_seq [Plus is_word, Chr CHR '' '', rx_rep 2 (Cls is_digit),
       Opt (Chr CHR '',''), Chr CHR '' '', rx_rep 4 (Cls is_digit)])]"

definition schluss_rx :: rx where
  "schluss_rx = rx_seq [rx_lit ''Bewerbungsschluss:'', Star is_space,
     Grp ''1'' (rx_seq [rx_rep 2 (Cls is_digit), Chr CHR ''.'', rx_rep 2 (Cls is_digit),
       Chr CHR ''.'', rx_rep 4 (Cls is_digit)])]"

definition patterns :: "rx list" where
  "patterns = [deadline_rx, schluss_rx]"

text \<open>The body of the \<^verbatim>\<open>try\<close>: the fragment with a dot is read as day.month.year, any
  other as month-name day, year.\<close>

definition parse_fragment :: "string \<Rightarrow> error + date" where
  "parse_fragment date_str =
     (if CHR ''.'' \<in> set date_str then strptime fmt_dmY date_str
      else strptime fmt_BdY date_str)"

text \<open>
  The loop over the patterns. The result is the log written and either the exception that
  leaves the function or the value returned (\<open>None\<close> for no date). Only \<^verbatim>\<open>ValueError\<close>
  is caught by the \<^verbatim>\<open>except\<close> clause.
\<close>

fun parse_deadline_loop :: "rx list \<Rightarrow> string \<Rightarrow> log \<times> (error + date option)" where
  "parse_deadline_loop [] text =
     ([LWarning (''No valid deadline found in: '' @ text)], Inr None)"
| "parse_deadline_loop (pattern # ps) text =
     (case re_search pattern text of
        None \<Rightarrow> parse_deadline_loop ps text
      | Some m \<Rightarrow>
          (case match_group m ''1'' of
             None \<Rightarrow> ([], Inl (Raise TypeError ''argument of type NoneType is not iterable''))
           | Some date_str \<Rightarrow>
               (case parse_fragment date_str of
                  Inr d \<Rightarrow> ([], Inr (Some d))
                | Inl e \<Rightarrow>
                    if exn_is ValueError e
                    then (let r = parse_deadline_loop ps text
                          in (LWarning (''Failed to parse date: '' @ date_str) # fst r, snd r))
                    else ([], Inl e))))"

definition parse_deadline :: "string \<Rightarrow> log \<times> (error + date option)" where
  "parse_deadline text = parse_deadline_loop patterns text"

section \<open>The external collaborators\<close>

type_synonym bytes = "8 word list"

text \<open>What \<^verbatim>\<open>get_content\<close> hands to the markup parser: the bytes of an HTTP response or the
  text of a local file.\<close>

datatype content = Bytes bytes | Str string

text \<open>
  A parsed document as \<^verbatim>\<open>BeautifulSoup\<close> holds it: text nodes, comments, and tags with
  their name, their attribute dictionary (an association list, the first binding of a
  key counts) and their children in document order.
\<close>

datatype node = Text string | Comment string | Elem string "(string \<times> string) list" "node list"

text \<open>
  The libraries and the outside world, as parameters of the model:
  \<^item> \<open>http_get\<close>: \<^verbatim>\<open>requests.get(url)\<close>, an exception or the status code and the body;
  \<^item> \<open>read_file\<close>: \<^verbatim>\<open>open(path, 'r', encoding='utf-8').read()\<close>;
  \<^item> \<open>html_parser\<close>: \<^verbatim>\<open>BeautifulSoup(content, 'html.parser')\<close>;
  \<^item> \<open>urljoin\<close>: \<^verbatim>\<open>urllib.parse.urljoin\<close>;
  \<^item> \<open>md5_hexdigest\<close>: \<^verbatim>\<open>hashlib.md5(b).hexdigest()\<close>;
  \<^item> \<open>tmp_write\<close>: whether writing these bytes to the temporary file raises;
  \<^item> \<open>extract_text\<close>: \<^verbatim>\<open>pdfminer\<close>'s \<^verbatim>\<open>extract_text\<close> on a file with these bytes.
\<close>

record world =
  http_get :: "string \<Rightarrow> error + (nat \<times> bytes)"
  read_file :: "string \<Rightarrow> error + string"
  html_parser :: "content \<Rightarrow> error + node"
  urljoin :: "string \<Rightarrow> string \<Rightarrow> string"
  md5_hexdigest :: "bytes \<Rightarrow> string"
  tmp_write :: "bytes \<Rightarrow> error option"
  extract_text :: "bytes \<Rightarrow> error + string"

text \<open>\<^verbatim>\<open>response.raise_for_status()\<close>: \<^verbatim>\<open>HTTPError\<close> for a status from 400 to 599.\<close>

definition raise_for_status :: "nat \<Rightarrow> error option" where
  "raise_for_status status =
     (if 400 \<le> status \<and> status < 600 then Some (Raise HTTPError (str_nat status @ '' Error''))
      else None)"

section \<open>The identifier generator\<close>

text \<open>\<^verbatim>\<open>str.encode()\<close>: UTF-8 of the code points below 256.\<close>

definition utf8 :: "char \<Rightarrow> bytes" where
  "utf8 c = (if ord c < 128 then [of_nat (ord c)]
     else [of_nat (192 + ord c div 64), of_nat (128 + ord c mod 64)])"

definition encode :: "string \<Rightarrow> bytes" where
  "encode s = concat (map utf8 s)"

text \<open>A \<^verbatim>\<open>date\<close> object is always true in a condition, so \<^verbatim>\<open>if deadline:\<close> asks whether
  the deadline is not \<^verbatim>\<open>None\<close>.\<close>

definition generate_id :: "world \<Rightarrow> string \<Rightarrow> date option \<Rightarrow> string" where
  "generate_id w title deadline =
     (case deadline of
        Some d \<Rightarrow> md5_hexdigest w (encode (title @ isoformat d))
      | None \<Rightarrow> md5_hexdigest w (encode title))"

section \<open>The listing parser\<close>

text \<open>All nodes below a node, in document order.\<close>

fun descendants :: "node \<Rightarrow> node list" where
  "descendants (Text s) = []"
| "descendants (Comment s) = []"
| "descendants (Elem t as cs) = concat (map (\<lambda>c. c # descendants c) cs)"

text \<open>\<^verbatim>\<open>str.split()\<close>: the maximal runs of non-whitespace characters.\<close>

fun split_aux :: "string \<Rightarrow> string \<Rightarrow> string list" where
  "split_aux cur [] = (if cur = [] then [] else [rev cur])"
| "split_aux cur (c # cs) =
     (if is_space c then (if cur = [] then split_aux [] cs else rev cur # split_aux [] cs)
      else split_aux (c # cur) cs)"

definition split_ws :: "string \<Rightarrow> string list" where
  "split_ws s = split_aux [] s"

text \<open>The test of \<^verbatim>\<open>find(name, class_=c)\<close> on one node: a tag of that name, one of whose
  classes is \<open>c\<close> when a class is asked for.\<close>

fun matches_tag :: "string \<Rightarrow> string option \<Rightarrow> node \<Rightarrow> bool" where
  "matches_tag name cls (Elem t as cs) =
     (t = name \<and> (case cls of None \<Rightarrow> True
        | Some c \<Rightarrow> (case map_of as ''class'' of None \<Rightarrow> False | Some v \<Rightarrow> c \<in> set (split_ws v))))"
| "matches_tag name cls n = False"

definition find_all :: "string \<Rightarrow> string option \<Rightarrow> node \<Rightarrow> node list" where
  "find_all name cls n = filter (matches_tag name cls) (descendants n)"

definition find_tag :: "string \<Rightarrow> string option \<Rightarrow> node \<Rightarrow> node option" where
  "find_tag name cls n = (case find_all name cls n of [] \<Rightarrow> None | x # xs \<Rightarrow> Some x)"

text \<open>The strings of a node, in document order (comments are not text).\<close>

fun strings :: "node \<Rightarrow> string list" where
  "strings (Text s) = [s]"
| "strings (Comment s) = []"
| "strings (Elem t as cs) = concat (map strings cs)"

text \<open>\<^verbatim>\<open>tag.text\<close>, and \<^verbatim>\<open>tag.get_text(strip=True)\<close>: every string stripped, the empty ones
  dropped, the rest joined without a separator.\<close>

definition node_text :: "node \<Rightarrow> string" where
  "node_text n = concat (strings n)"

definition get_text_strip :: "node \<Rightarrow> string" where
  "get_text_strip n = concat (filter (\<lambda>s. s \<noteq> []) (map strip (strings n)))"

text \<open>\<^verbatim>\<open>tag[key]\<close>: \<^verbatim>\<open>KeyError\<close> when the tag has no such attribute.\<close>

fun node_attr :: "node \<Rightarrow> string \<Rightarrow> error + string" where
  "node_attr (Elem t as cs) k =
     (case map_of as k of None \<Rightarrow> Inl (Raise KeyError k) | Some v \<Rightarrow> Inr v)"
| "node_attr n k = Inl (Raise KeyError k)"

record job =
  job_id :: string
  title :: string
  pdf_url :: string
  job_type :: string
  deadline :: "date option"

text \<open>The pattern \<^verbatim>\<open>Kenn-Nr\.\s*(\S+)\<close>.\<close>

definition kenn_rx :: rx where
  "kenn_rx = rx_seq [rx_lit ''Kenn-Nr.'', Star is_space, Grp ''1'' (Plus is_nonspace)]"

text \<open>The identifier of a candidate, from its raw text, its title and its deadline. Group
  1 takes part in every match of the pattern, so the last branch is never taken.\<close>

definition candidate_id :: "world \<Rightarrow> string \<Rightarrow> string \<Rightarrow> date option \<Rightarrow> string" where
  "candidate_id w full_text ttl dl =
     (case re_search kenn_rx full_text of
        None \<Rightarrow> generate_id w ttl dl
      | Some m \<Rightarrow> (case match_group m ''1'' of Some tok \<Rightarrow> tok | None \<Rightarrow> ''None''))"

definition str_deadline :: "date option \<Rightarrow> string" where
  "str_deadline dl = (case dl of None \<Rightarrow> ''None'' | Some d \<Rightarrow> isoformat d)"

text \<open>The body of the loop over the list items: nothing for an item without the document
  link, an exception, or the candidate.\<close>

definition scrape_li :: "world \<Rightarrow> string \<Rightarrow> string \<Rightarrow> node \<Rightarrow> log \<times> (error + job option)" where
  "scrape_li w base_url jt li =
     (case find_tag ''a'' (Some ''up-document-link'') li of
        None \<Rightarrow> ([], Inr None)
      | Some link \<Rightarrow>
          (let ttl = strip (node_text link) in
           case node_attr link ''href'' of
             Inl e \<Rightarrow> ([], Inl e)
           | Inr href \<Rightarrow>
               (let url = urljoin w base_url href;
                    full_text = get_text_strip li;
                    pd = parse_deadline full_text
                in case snd pd of
                     Inl e \<Rightarrow> (fst pd, Inl e)
                   | Inr dl \<Rightarrow>
                       (let jid = candidate_id w full_text ttl dl
                        in (fst pd @ [LInfo (''Found job ad: ID='' @ jid @ '', Title='' @ ttl
                                  @ '', Deadline='' @ str_deadline dl)],
                            Inr (Some \<lparr>job_id = jid, title = ttl, pdf_url = url,
                                        job_type = jt, deadline = dl\<rparr>))))))"

fun scrape_items :: "world \<Rightarrow> string \<Rightarrow> string \<Rightarrow> node list \<Rightarrow> job list
    \<Rightarrow> log \<times> (error + job list)" where
  "scrape_items w base_url jt [] job_ads = ([], Inr job_ads)"
| "scrape_items w base_url jt (li # lis) job_ads =
     (let r = scrape_li w base_url jt li in
      case snd r of
        Inl e \<Rightarrow> (fst r, Inl e)
      | Inr None \<Rightarrow>
          (let r' = scrape_items w base_url jt lis job_ads in (fst r @ fst r', snd r'))
      | Inr (Some j) \<Rightarrow>
          (let r' = scrape_items w base_url jt lis (job_ads @ [j]) in (fst r @ fst r', snd r')))"

definition scrape_job_ads :: "world \<Rightarrow> node \<Rightarrow> string \<Rightarrow> log \<times> (error + job list)" where
  "scrape_job_ads w soup base_url =
     (case find_tag ''h1'' None soup of
        None \<Rightarrow> ([], Inl (Raise AttributeError ''NoneType object has no attribute text''))
      | Some h1 \<Rightarrow>
          (let jt = strip (node_text h1);
               log1 = [LInfo (''Job type found: '' @ jt)]
           in case find_tag ''div'' (Some ''up-content-link-box'') soup of
                None \<Rightarrow> (log1 @ [LWarning ''Could not find the job listings container''], Inr [])
              | Some container \<Rightarrow>
                  (let r = scrape_items w base_url jt (find_all ''li'' None container) []
                   in case snd r of
                        Inl e \<Rightarrow> (log1 @ fst r, Inl e)
                      | Inr job_ads \<Rightarrow>
                          (log1 @ fst r
                             @ [LInfo (''Total job ads found: '' @ str_nat (length job_ads))],
                           Inr job_ads))))"

section \<open>The document extractor\<close>

text \<open>The directory of temporary files: name and content of each file. A new temporary
  file gets a name no file of the directory has.\<close>

type_synonym tmpdir = "(nat \<times> bytes) list"

definition fresh_name :: "tmpdir \<Rightarrow> nat" where
  "fresh_name fs = Suc (foldr max (map fst fs) 0)"

definition unlink :: "nat \<Rightarrow> tmpdir \<Rightarrow> tmpdir" where
  "unlink p fs = filter (\<lambda>f. fst f \<noteq> p) fs"

text \<open>
  \<^verbatim>\<open>process_pdf\<close>: the log, the exception or the extracted text, and the directory of
  temporary files afterwards. The file is created by \<^verbatim>\<open>NamedTemporaryFile(delete=False)\<close>
  and written inside the \<^verbatim>\<open>with\<close> block, which closes it and does not delete it; the
  \<^verbatim>\<open>try ... finally\<close> with \<^verbatim>\<open>os.unlink\<close> starts after that block.
\<close>

definition process_pdf :: "world \<Rightarrow> string \<Rightarrow> tmpdir \<Rightarrow> log \<times> (error + string) \<times> tmpdir" where
  "process_pdf w url fs =
     (let log1 = [LInfo (''Processing PDF: '' @ url)] in
      case http_get w url of
        Inl e \<Rightarrow> (log1, Inl e, fs)
      | Inr response \<Rightarrow>
          (case raise_for_status (fst response) of
             Some e \<Rightarrow> (log1, Inl e, fs)
           | None \<Rightarrow>
               (let temp_file_path = fresh_name fs in
                case tmp_write w (snd response) of
                  Some e \<Rightarrow> (log1, Inl e, (temp_file_path, []) # fs)
                | None \<Rightarrow>
                    (let fs1 = (temp_file_path, snd response) # fs in
                     case extract_text w (snd response) of
                       Inl e \<Rightarrow> (log1, Inl e, unlink temp_file_path fs1)
                     | Inr text \<Rightarrow>
                         (log1 @ [LInfo (''Extracted '' @ str_nat (length text)
                                    @ '' characters from PDF'')],
                          Inr text, unlink temp_file_path fs1)))))"

section \<open>The store and the orchestrator\<close>

record row =
  row_id :: string
  row_title :: string
  full_text :: string
  row_job_type :: string
  row_deadline :: "date option"

text \<open>A connection: the table \<^verbatim>\<open>job_ads\<close> as committed, and as the connection sees it
  (with the writes of the open transaction).\<close>

record conn =
  committed :: "row list"
  working :: "row list"

definition commit :: "conn \<Rightarrow> conn" where
  "commit c = c\<lparr>committed := working c\<rparr>"

definition rollback :: "conn \<Rightarrow> conn" where
  "rollback c = c\<lparr>working := committed c\<rparr>"

text \<open>\<^verbatim>\<open>SELECT id FROM job_ads WHERE id=?\<close> followed by \<^verbatim>\<open>fetchone()\<close>.\<close>

definition select_id :: "conn \<Rightarrow> string \<Rightarrow> string option" where
  "select_id c i = (case filter (\<lambda>r. row_id r = i) (working c) of [] \<Rightarrow> None | r # rs \<Rightarrow> Some (row_id r))"

text \<open>\<^verbatim>\<open>INSERT INTO job_ads\<close>: the primary key refuses a second row with the same id.\<close>

definition insert_row :: "conn \<Rightarrow> row \<Rightarrow> error + conn" where
  "insert_row c r =
     (if row_id r \<in> set (map row_id (working c))
      then Inl (Raise IntegrityError ''UNIQUE constraint failed: job_ads.id'')
      else Inr (c\<lparr>working := working c @ [r]\<rparr>))"

text \<open>\<^verbatim>\<open>get_content\<close>: a URL is fetched, anything else is read as a local file.\<close>

definition startswith :: "string \<Rightarrow> string \<Rightarrow> bool" where
  "startswith s p = (take (length p) s = p)"

definition get_content :: "world \<Rightarrow> string \<Rightarrow> log \<times> (error + (content \<times> string))" where
  "get_content w input_path =
     (let log1 = [LDebug (''Fetching content from: '' @ input_path)] in
      if startswith input_path ''http:'' \<or> startswith input_path ''https:''
      then (case http_get w input_path of
              Inl e \<Rightarrow> (log1, Inl e)
            | Inr response \<Rightarrow>
                (case raise_for_status (fst response) of
                   Some e \<Rightarrow> (log1, Inl e)
                 | None \<Rightarrow> (log1, Inr (Bytes (snd response), input_path))))
      else (case read_file w input_path of
              Inl e \<Rightarrow> (log1, Inl e)
            | Inr text \<Rightarrow> (log1, Inr (Str text, ''https://www.uni-potsdam.de''))))"

text \<open>The row that the \<^verbatim>\<open>INSERT\<close> statement writes for a candidate and its extracted text.\<close>

definition job_row :: "job \<Rightarrow> string \<Rightarrow> row" where
  "job_row j text = \<lparr>row_id = job_id j, row_title = title j, full_text = text,
                      row_job_type = job_type j, row_deadline = deadline j\<rparr>"

text \<open>The body of the loop over the candidates, and the loop.\<close>

definition process_job :: "world \<Rightarrow> job \<Rightarrow> conn \<times> tmpdir \<Rightarrow> log \<times> conn \<times> tmpdir" where
  "process_job w j st =
     (let c = fst st; fs = snd st in
      if select_id c (job_id j) = None
      then (let log1 = [LInfo (''Processing new job ad: '' @ job_id j @ '' - '' @ title j)];
                r = process_pdf w (pdf_url j) fs;
                fs' = snd (snd r);
                failed = (\<lambda>e. LError (''Error processing PDF for job '' @ job_id j @ '': ''
                                   @ exn_str e))
            in case fst (snd r) of
                 Inl e \<Rightarrow> (log1 @ fst r @ [failed e], c, fs')
               | Inr text \<Rightarrow>
                   (case insert_row c (job_row j text) of
                      Inl e \<Rightarrow> (log1 @ fst r @ [failed e], c, fs')
                    | Inr c' \<Rightarrow>
                        (log1 @ fst r @ [LInfo (''Inserted new job ad: '' @ job_id j)], c', fs')))
      else ([LInfo (''Job ad already in database: '' @ job_id j)], c, fs))"

fun process_jobs :: "world \<Rightarrow> job list \<Rightarrow> conn \<times> tmpdir \<Rightarrow> log \<times> conn \<times> tmpdir" where
  "process_jobs w [] st = ([], fst st, snd st)"
| "process_jobs w (j # js) st =
     (let r = process_job w j st;
          r' = process_jobs w js (snd r)
      in (fst r @ fst r', snd r'))"

text \<open>\<^verbatim>\<open>process_input\<close>: every exception of the fetch, of the markup parser and of the
  listing parser reaches the outer \<^verbatim>\<open>except\<close>, which logs it and rolls back.\<close>

definition input_failed :: "string \<Rightarrow> log \<Rightarrow> error \<Rightarrow> conn \<times> tmpdir \<Rightarrow> log \<times> conn \<times> tmpdir" where
  "input_failed input_path lg e st =
     (lg @ [LError (''Error processing input '' @ input_path @ '': '' @ exn_str e)],
      rollback (fst st), snd st)"

definition process_input :: "world \<Rightarrow> string \<Rightarrow> conn \<times> tmpdir \<Rightarrow> log \<times> conn \<times> tmpdir" where
  "process_input w input_path st =
     (let g = get_content w input_path in
      case snd g of
        Inl e \<Rightarrow> input_failed input_path (fst g) e st
      | Inr cb \<Rightarrow>
          (case html_parser w (fst cb) of
             Inl e \<Rightarrow> input_failed input_path (fst g) e st
           | Inr soup \<Rightarrow>
               (let s = scrape_job_ads w soup (snd cb) in
                case snd s of
                  Inl e \<Rightarrow> input_failed input_path (fst g @ fst s) e st
                | Inr job_ads \<Rightarrow>
                    (let r = process_jobs w job_ads st
                     in (fst g @ fst s @ fst r, commit (fst (snd r)), snd (snd r))))))"

text \<open>\<^verbatim>\<open>main\<close> on the table stored in the database file: the connection is opened on it,
  \<^verbatim>\<open>process_input\<close> runs once, and closing the connection leaves what was committed.\<close>

definition main :: "world \<Rightarrow> string \<Rightarrow> row list \<times> tmpdir \<Rightarrow> log \<times> row list \<times> tmpdir" where
  "main w input_path st =
     (let r = process_input w input_path (\<lparr>committed = fst st, working = fst st\<rparr>, snd st)
      in (LInfo (''Processing input: '' @ input_path) # fst r, committed (fst (snd r)), snd (snd r)))"

section \<open>A concrete listing and a concrete world\<close>

text \<open>A listing page with three candidates: the first carries a reference number and a
  month-name deadline, the second a dotted deadline, the third neither.\<close>

definition example_items :: "node list" where
  "example_items =
     [Elem ''li'' []
        [Elem ''a'' [(''class'', ''up-document-link''), (''href'', ''a.pdf'')]
           [Text ''Research Assistant''],
         Text '' Deadline: March 15, 2024 '', Text '' Kenn-Nr. AB123 ''],
      Elem ''li'' []
        [Elem ''a'' [(''class'', ''link up-document-link''), (''href'', ''b.pdf'')]
           [Text ''Postdoc''],
         Text '' Bewerbungsschluss: 15.03.2024''],
      Elem ''li'' []
        [Elem ''a'' [(''class'', ''up-document-link''), (''href'', ''c.pdf'')]
           [Text ''Professor'']]]"

definition example_page :: node where
  "example_page = Elem ''[document]'' []
     [Elem ''h1'' [] [Text '' Stellen ''],
      Elem ''div'' [(''class'', ''up-content-link-box'')] [Elem ''ul'' [] example_items]]"

text \<open>A page with neither a heading nor the listing container.\<close>

definition bare_page :: node where
  "bare_page = Elem ''[document]'' [] [Elem ''p'' [] [Text ''No vacancies'']]"

text \<open>A world in which the listing is served, the document of the second candidate cannot
  be fetched, and every other document is fetched and read. The digest is a stand-in:
  the bytes in hexadecimal.\<close>

definition hex_byte :: "8 word \<Rightarrow> string" where
  "hex_byte x = [''0123456789abcdef'' ! (unat x div 16), ''0123456789abcdef'' ! (unat x mod 16)]"

definition example_world :: world where
  "example_world =
     \<lparr>http_get = (\<lambda>u. if u = ''https://jobs/b.pdf''
         then Inl (Raise ConnectionError ''connection refused'')
         else if u = ''https://down''
         then Inl (Raise ConnectionError ''name resolution failed'')
         else Inr (200, encode ''%PDF'')),
      read_file = (\<lambda>p. Inl (Raise OSError ''No such file'')),
      html_parser = (\<lambda>c. Inr example_page),
      urljoin = (\<lambda>b h. ''https://jobs/'' @ h),
      md5_hexdigest = (\<lambda>b. concat (map hex_byte b)),
      tmp_write = (\<lambda>b. None),
      extract_text = (\<lambda>b. Inr ''Full text of the advertisement'')\<rparr>"

text \<open>The same world with a full disk: writing to the temporary file raises.\<close>

definition full_disk_world :: world where
  "full_disk_world =
     example_world\<lparr>tmp_write := (\<lambda>b. Some (Raise OSError ''No space left on device''))\<rparr>"

section \<open>Evaluation\<close>

text \<open>The character classes on a character given by its bits (\<open>b0\<close> the lowest), each
  checked against its definition on all 256 characters. They let the simplifier run the
  model on concrete texts.\<close>

lemma is_digit_Char [simp, code]:
  "is_digit (Char b0 b1 b2 b3 b4 b5 b6 b7) =
     (\<not> b7 \<and> (\<not> b6 \<and> (b5 \<and> (b4 \<and> (if b3 then (\<not> b2 \<and> \<not> b1) else True)))))"
  by (cases b7; cases b6; cases b5; cases b4; cases b3; cases b2; cases b1; cases b0;
      simp add: is_digit_def is_alnum_def is_digit_def ord_def)

lemma is_space_Char [simp, code]:
  "is_space (Char b0 b1 b2 b3 b4 b5 b6 b7) =
     (if b7 then (\<not> b6 \<and> (if b5 then (\<not> b4 \<and> (\<not> b3 \<and> (\<not> b2 \<and> (\<not> b1 \<and> \<not> b0)))) else (\<not> b4 \<and> (\<not> b3 \<and> (b2 \<and> (\<not> b1 \<and> b0)))))) else (\<not> b6 \<and> (if b5 then (\<not> b4 \<and> (\<not> b3 \<and> (\<not> b2 \<and> (\<not> b1 \<and> \<not> b0)))) else (if b4 then (b3 \<and> b2) else (b3 \<and> (if b2 then \<not> b1 else (if b1 then True else b0)))))))"
  by (cases b7; cases b6; cases b5; cases b4; cases b3; cases b2; cases b1; cases b0;
      simp add: is_space_def is_alnum_def is_digit_def ord_def)

lemma is_word_Char [simp, code]:
  "is_word (Char b0 b1 b2 b3 b4 b5 b6 b7) =
     (if b7 then (if b6 then (if b5 then (if b4 then (if b3 then True else (if b2 then (if b1 then \<not> b0 else True) else True)) else True) else (if b4 then (if b3 then True else (if b2 then (if b1 then \<not> b0 else True) else True)) else True)) else (b5 \<and> (if b4 then (if b3 then (if b2 then (if b1 then \<not> b0 else True) else (if b1 then \<not> b0 else b0)) else (if b2 then (\<not> b1 \<and> b0) else b1)) else (b3 \<and> (\<not> b2 \<and> (b1 \<and> \<not> b0)))))) else (if b6 then (if b5 then (if b4 then (if b3 then (\<not> b2 \<and> (if b1 then \<not> b0 else True)) else True) else (if b3 then True else (if b2 then True else (if b1 then True else b0)))) else (if b4 then (if b3 then (if b2 then (b1 \<and> b0) else (if b1 then \<not> b0 else True)) else True) else (if b3 then True else (if b2 then True else (if b1 then True else b0))))) else (b5 \<and> (b4 \<and> (if b3 then (\<not> b2 \<and> \<not> b1) else True)))))"
  by (cases b7; cases b6; cases b5; cases b4; cases b3; cases b2; cases b1; cases b0;
      simp add: is_word_def is_alnum_def is_digit_def ord_def)

lemma lower_char_Char [simp, code]:
  "lower_char (Char b0 b1 b2 b3 b4 b5 b6 b7) =
     (if (if b7 then (b6 \<and> (\<not> b5 \<and> (if b4 then (if b3 then (if b2 then (if b1 then \<not> b0 else True) else True) else (if b2 then (if b1 then \<not> b0 else True) else True)) else True))) else (b6 \<and> (\<not> b5 \<and> (if b4 then (if b3 then (\<not> b2 \<and> (if b1 then \<not> b0 else True)) else True) else (if b3 then True else (if b2 then True else (if b1 then True else b0)))))))
      then Char b0 b1 b2 b3 b4 True b6 b7 else Char b0 b1 b2 b3 b4 b5 b6 b7)"
  by (cases b7; cases b6; cases b5; cases b4; cases b3; cases b2; cases b1; cases b0;
      simp add: lower_char_def ord_def char_of_def bit_Suc_0_iff)

lemma rx_rep_2 [simp]: "rx_rep 2 r = Seq r r"
  by (simp add: numeral_2_eq_2)

lemma rx_rep_4 [simp]: "rx_rep 4 r = Seq r (Seq r (Seq r r))"
  by (simp add: eval_nat_numeral)

lemmas char_eval = str_nat.simps zero_pad_def isoformat_def digit_char_def py_int_def
  strip_def ord_def lower_def chr_range_def is_nonspace_def startswith_def

lemmas rx_eval = re_match_def match_group_def deadline_rx_def schluss_rx_def kenn_rx_def
  fmt_BdY_def fmt_dmY_def rx_d_def rx_m_def rx_Y_def rx_B_def

lemmas date_eval = strptime_def found_int_def found_month_def make_date_def
  days_in_month_def is_leap_def month_names_def parse_fragment_def parse_deadline_def
  patterns_def

lemmas soup_eval = find_tag_def find_all_def node_text_def get_text_strip_def split_ws_def
  candidate_id_def generate_id_def encode_def utf8_def str_deadline_def scrape_li_def
  scrape_job_ads_def Let_def

lemmas run_eval = raise_for_status_def process_pdf_def fresh_name_def unlink_def
  select_id_def insert_row_def job_row_def commit_def rollback_def get_content_def process_job_def
  input_failed_def process_input_def main_def Let_def

lemmas example_eval = example_items_def example_page_def bare_page_def hex_byte_def
  example_world_def full_disk_world_def

section \<open>The identifier generator\<close>

text \<open>
  Claim C5. Without a reference token the identifier is \<open>generate_id\<close> of the title and
  the deadline: the digest of the title followed by the deadline as \<^verbatim>\<open>YYYY-MM-DD\<close> when
  there is a deadline, the digest of the title alone when there is none. It depends on
  nothing else: two worlds with the same digest function give the same identifier, and
  so do two raw texts without a token.
\<close>

theorem generate_id_deterministic:
  "generate_id w ttl (Some d) = md5_hexdigest w (encode (ttl @ isoformat d))
   \<and> generate_id w ttl None = md5_hexdigest w (encode ttl)
   \<and> (md5_hexdigest w' = md5_hexdigest w \<longrightarrow> generate_id w' ttl dl = generate_id w ttl dl)
   \<and> (re_search kenn_rx raw = None \<longrightarrow> candidate_id w raw ttl dl = generate_id w ttl dl)"
  by (simp add: generate_id_def candidate_id_def split: option.splits)

theorem generate_id_deterministic_witness:
  "generate_id example_world ''Research Assistant'' (Some \<lparr>year = 2024, month = 3, day = 15\<rparr>)
     = md5_hexdigest example_world (encode ''Research Assistant2024-03-15'')
   \<and> generate_id full_disk_world ''Postdoc'' None = generate_id example_world ''Postdoc'' None
   \<and> candidate_id example_world ''Postdoc'' ''Postdoc'' None
     = generate_id example_world ''Postdoc'' None"
proof -
  have iso: "isoformat \<lparr>year = 2024, month = 3, day = 15\<rparr> = ''2024-03-15''"
    by (simp add: char_eval)
  have same: "md5_hexdigest full_disk_world = md5_hexdigest example_world"
    by (simp add: full_disk_world_def)
  have none: "re_search kenn_rx ''Postdoc'' = None"
    by (simp add: rx_eval char_eval)
  show ?thesis
    using generate_id_deterministic [where w = example_world and w' = full_disk_world
        and ttl = "''Postdoc''" and dl = None and raw = "''Postdoc''"]
      generate_id_deterministic [where w = example_world and ttl = "''Research Assistant''"
        and d = "\<lparr>year = 2024, month = 3, day = 15\<rparr>"]
      iso same none
    by simp
qed

section \<open>Rollback\<close>

text \<open>
  Claim C2. When the listing cannot be fetched, or the markup parser or the listing
  parser raises, \<open>process_input\<close> logs the error and rolls back: what was committed is
  as before the run, nothing staged is left, and this run touched no temporary file.
\<close>

theorem process_input_rollback:
  assumes "snd (get_content w p) = Inl e
     \<or> (\<exists>cb. snd (get_content w p) = Inr cb \<and> (html_parser w (fst cb) = Inl e
          \<or> (\<exists>soup. html_parser w (fst cb) = Inr soup
                \<and> snd (scrape_job_ads w soup (snd cb)) = Inl e)))"
  shows "snd (process_input w p (c, fs)) = (rollback c, fs)
     \<and> committed (rollback c) = committed c
     \<and> working (rollback c) = committed c
     \<and> last (fst (process_input w p (c, fs)))
         = LError (''Error processing input '' @ p @ '': '' @ exn_str e)"
  using assms
  by (auto simp: process_input_def input_failed_def rollback_def Let_def)

theorem process_input_rollback_witness:
  "snd (process_input example_world ''https://down''
          (\<lparr>committed = [], working = []\<rparr>, []))
     = (rollback \<lparr>committed = [], working = []\<rparr>, [])
   \<and> last (fst (process_input example_world ''https://down''
          (\<lparr>committed = [], working = []\<rparr>, [])))
     = LError ''Error processing input https://down: name resolution failed''
   \<and> snd (process_input (example_world\<lparr>html_parser := \<lambda>c. Inr bare_page\<rparr>) ''https://jobs''
          (\<lparr>committed = [], working = []\<rparr>, []))
     = (rollback \<lparr>committed = [], working = []\<rparr>, [])"
proof -
  let ?w = "example_world\<lparr>html_parser := \<lambda>c. Inr bare_page\<rparr>"
  let ?cb = "(Bytes (encode ''%PDF''), ''https://jobs'')"
  have down: "snd (get_content example_world ''https://down'')
          = Inl (Raise ConnectionError ''name resolution failed'')"
    by (simp add: get_content_def example_world_def startswith_def)
  have "snd (get_content ?w ''https://jobs'') = Inr ?cb"
    by (simp add: get_content_def startswith_def raise_for_status_def example_world_def)
  moreover have "html_parser ?w (fst ?cb) = Inr bare_page"
    by simp
  moreover have "snd (scrape_job_ads ?w bare_page (snd ?cb))
      = Inl (Raise AttributeError ''NoneType object has no attribute text'')"
    by (simp add: scrape_job_ads_def find_tag_def find_all_def bare_page_def)
  ultimately have bare: "snd (get_content ?w ''https://jobs'')
       = Inl (Raise AttributeError ''NoneType object has no attribute text'')
     \<or> (\<exists>cb. snd (get_content ?w ''https://jobs'') = Inr cb
          \<and> (html_parser ?w (fst cb) = Inl (Raise AttributeError ''NoneType object has no attribute text'')
             \<or> (\<exists>soup. html_parser ?w (fst cb) = Inr soup
                \<and> snd (scrape_job_ads ?w soup (snd cb))
                   = Inl (Raise AttributeError ''NoneType object has no attribute text''))))"
    by blast
  show ?thesis
    using process_input_rollback [where w = example_world and p = "''https://down''"
        and e = "Raise ConnectionError ''name resolution failed''"
        and c = "\<lparr>committed = [], working = []\<rparr>" and fs = "[]"]
      process_input_rollback [OF bare, of "\<lparr>committed = [], working = []\<rparr>" "[]"]
      down
    by simp
qed

section \<open>The temporary file\<close>

lemma fresh_name_bound: "f \<in> set fs \<Longrightarrow> fst f < fresh_name fs"
  by (induction fs) (auto simp: fresh_name_def)

lemma unlink_fresh: "unlink (fresh_name fs) ((fresh_name fs, b) # fs) = fs"
proof -
  have "\<forall>f\<in>set fs. fst f \<noteq> fresh_name fs"
    using fresh_name_bound by fastforce
  then show ?thesis by (simp add: unlink_def)
qed

text \<open>When the write does not raise, the directory of temporary files is after the call
  what it was before, whether the fetch fails, the extraction fails or the text is
  returned.\<close>

lemma process_pdf_cleans_up:
  assumes "\<forall>b. tmp_write w b = None"
  shows "snd (snd (process_pdf w url fs)) = fs"
  using assms by (simp add: process_pdf_def Let_def unlink_fresh split: sum.splits option.splits)

lemma process_pdf_fetch_failure:
  "http_get w url = Inl e \<Longrightarrow> process_pdf w url fs = ([LInfo (''Processing PDF: '' @ url)], Inl e, fs)"
  by (simp add: process_pdf_def)

text \<open>
  Claim C3. The temporary file is deleted when the text is extracted and when the
  extraction fails, and no file is created when the fetch fails. It is not deleted when
  writing the fetched bytes raises: the write stands before the \<^verbatim>\<open>try ... finally\<close>, and
  the file was created with \<^verbatim>\<open>delete=False\<close>. On a full disk the call returns with the
  exception and the new file is still in the directory.
\<close>

theorem process_pdf_write_failure_leaves_file:
  "process_pdf full_disk_world ''https://jobs/a.pdf'' []
     = ([LInfo ''Processing PDF: https://jobs/a.pdf''],
        Inl (Raise OSError ''No space left on device''), [(1, [])])"
  by (simp add: run_eval example_eval encode_def utf8_def char_eval)

section \<open>A page without the container\<close>

lemma scrape_job_ads_no_container:
  assumes "find_tag ''h1'' None soup = Some h"
    and "find_tag ''div'' (Some ''up-content-link-box'') soup = None"
  shows "scrape_job_ads w soup base_url
     = ([LInfo (''Job type found: '' @ strip (node_text h)),
         LWarning ''Could not find the job listings container''], Inr [])"
  using assms by (simp add: scrape_job_ads_def)

text \<open>
  Claim C9. A page with a heading and without the container gives no candidates and a
  warning. A page with neither raises: the heading is read, with \<^verbatim>\<open>.text\<close> on the result
  of \<^verbatim>\<open>find('h1')\<close>, before the container is looked for.
\<close>

theorem scrape_job_ads_no_heading_raises:
  "scrape_job_ads w bare_page base_url
     = ([], Inl (Raise AttributeError ''NoneType object has no attribute text''))"
  by (simp add: scrape_job_ads_def find_tag_def find_all_def bare_page_def)

section \<open>The regular expressions and the deadline parser\<close>

lemma re_search_hit: "re_match r s = Some m \<Longrightarrow> re_search r s = Some m"
  by (cases s) simp_all

lemma re_search_skip:
  "\<forall>i<length pre. re_match r (drop i (pre @ t)) = None \<Longrightarrow> re_search r (pre @ t) = re_search r t"
proof (induction pre)
  case Nil
  then show ?case by simp
next
  case (Cons x xs)
  from Cons.prems have "re_match r (drop 0 ((x # xs) @ t)) = None" by blast
  then have here: "re_match r (x # xs @ t) = None" by simp
  have "\<forall>i<length xs. re_match r (drop i (xs @ t)) = None"
  proof (intro allI impI)
    fix i assume "i < length xs"
    then have "Suc i < length (x # xs)" by simp
    with Cons.prems have "re_match r (drop (Suc i) ((x # xs) @ t)) = None" by blast
    then show "re_match r (drop i (xs @ t)) = None" by simp
  qed
  with Cons.IH here show ?case by simp
qed

lemma re_search_Some_match:
  "re_search r s = Some m \<Longrightarrow> \<exists>t. re_match r t = Some m"
  by (induction s) (auto split: option.splits)

lemma re_match_member: "re_match r s = Some m \<Longrightarrow> m \<in> set (rx_run r s [])"
  by (auto simp: re_match_def split: list.splits)

lemma rx_all_append: "rx_all b (ms @ ns) = rx_all b ms @ rx_all b ns"
  by (induction ms) simp_all

lemma rx_all_member:
  "m \<in> set (rx_all b ms) \<Longrightarrow> \<exists>n\<in>set ms. m \<in> set (rx_run b (fst n) (snd n))"
  by (induction ms) auto

lemma set_group_member: "m \<in> set (set_group n s ms) \<Longrightarrow> map_of (snd m) n \<noteq> None"
  by (induction ms) auto

lemma deadline_rx_unfold:
  "deadline_rx = Seq (rx_lit ''Deadline:'') (Seq (Star is_space)
     (Grp ''1'' (rx_seq [Plus is_word, Chr CHR '' '', rx_rep 2 (Cls is_digit),
       Opt (Chr CHR '',''), Chr CHR '' '', rx_rep 4 (Cls is_digit)])))"
  by (simp add: deadline_rx_def)

lemma schluss_rx_unfold:
  "schluss_rx = Seq (rx_lit ''Bewerbungsschluss:'') (Seq (Star is_space)
     (Grp ''1'' (rx_seq [rx_rep 2 (Cls is_digit), Chr CHR ''.'', rx_rep 2 (Cls is_digit),
       Chr CHR ''.'', rx_rep 4 (Cls is_digit)])))"
  by (simp add: schluss_rx_def)

lemma seq_seq_grp_binds:
  assumes "m \<in> set (rx_run (Seq a (Seq b (Grp n c))) s g)"
  shows "match_group m n \<noteq> None"
proof -
  from assms obtain m1 where "m \<in> set (rx_run (Seq b (Grp n c)) (fst m1) (snd m1))"
    by (auto dest: rx_all_member)
  then obtain m2 where "m \<in> set (rx_run (Grp n c) (fst m2) (snd m2))"
    by (auto dest: rx_all_member)
  then show ?thesis
    by (auto simp: match_group_def dest: set_group_member)
qed

lemma patterns_bind_group:
  assumes "p \<in> set patterns" and "re_search p s = Some m"
  shows "match_group m ''1'' \<noteq> None"
proof -
  from assms(2) obtain t where "re_match p t = Some m"
    by (auto dest: re_search_Some_match)
  then have mem: "m \<in> set (rx_run p t [])" by (rule re_match_member)
  from assms(1) have "p = deadline_rx \<or> p = schluss_rx" by (simp add: patterns_def)
  then obtain a b c where "p = Seq a (Seq b (Grp ''1'' c))"
    using deadline_rx_unfold schluss_rx_unfold by metis
  with mem show ?thesis
    using seq_seq_grp_binds by blast
qed

lemma make_date_error: "make_date y m d = Inl e \<Longrightarrow> exn_is ValueError e"
  by (auto simp: make_date_def split: if_splits)

lemma strptime_error: "strptime fmt s = Inl e \<Longrightarrow> exn_is ValueError e"
  by (auto simp: strptime_def split: option.splits if_splits dest: make_date_error)

lemma parse_fragment_error: "parse_fragment s = Inl e \<Longrightarrow> exn_is ValueError e"
  by (auto simp: parse_fragment_def split: if_splits dest: strptime_error)

lemma parse_deadline_loop_returns:
  "set ps \<subseteq> set patterns \<Longrightarrow> \<exists>d. snd (parse_deadline_loop ps s) = Inr d"
proof (induction ps)
  case Nil
  then show ?case by simp
next
  case (Cons p ps)
  then have p: "p \<in> set patterns" and IH: "\<exists>d. snd (parse_deadline_loop ps s) = Inr d"
    by auto
  show ?case
  proof (cases "re_search p s")
    case None
    with IH show ?thesis by simp
  next
    case (Some m)
    with p obtain frag where frag: "match_group m ''1'' = Some frag"
      using patterns_bind_group by blast
    show ?thesis
    proof (cases "parse_fragment frag")
      case (Inl e)
      then have "exn_is ValueError e" by (rule parse_fragment_error)
      with Some frag Inl IH show ?thesis by (simp add: Let_def)
    next
      case (Inr d)
      with Some frag show ?thesis by simp
    qed
  qed
qed

lemma parse_deadline_loop_nonempty_log:
  "snd (parse_deadline_loop ps s) = Inr None \<Longrightarrow> fst (parse_deadline_loop ps s) \<noteq> []"
  by (induction ps) (auto simp: Let_def split: option.splits sum.splits if_splits)

lemma parse_deadline_loop_no_date:
  "snd (parse_deadline_loop ps s) = Inr None
   \<Longrightarrow> last (fst (parse_deadline_loop ps s)) = LWarning (''No valid deadline found in: '' @ s)"
proof (induction ps)
  case Nil
  then show ?case by simp
next
  case (Cons p ps)
  then show ?case
    using parse_deadline_loop_nonempty_log [of ps s]
    by (auto simp: Let_def split: option.splits sum.splits if_splits)
qed

text \<open>
  Claim C8. \<open>parse_deadline\<close> tries the Deadline pattern, then the Bewerbungsschluss
  pattern. It never raises: a pattern that does not match is passed over; a fragment that
  matches and does not parse is logged as a warning and the loop goes on with the patterns
  that are left; when no pattern gives a date the result is no date, and the last log
  entry is the warning that says so.
\<close>

theorem parse_deadline_never_aborts:
  "parse_deadline s = parse_deadline_loop [deadline_rx, schluss_rx] s
   \<and> (\<exists>d. snd (parse_deadline s) = Inr d)
   \<and> (re_search p s = None \<longrightarrow> parse_deadline_loop (p # ps) s = parse_deadline_loop ps s)
   \<and> (re_search p s = Some m \<and> match_group m ''1'' = Some frag \<and> parse_fragment frag = Inl e
        \<longrightarrow> parse_deadline_loop (p # ps) s
           = (LWarning (''Failed to parse date: '' @ frag) # fst (parse_deadline_loop ps s),
              snd (parse_deadline_loop ps s)))
   \<and> (snd (parse_deadline s) = Inr None
        \<longrightarrow> last (fst (parse_deadline s)) = LWarning (''No valid deadline found in: '' @ s))"
proof -
  have "\<exists>d. snd (parse_deadline s) = Inr d"
    unfolding parse_deadline_def by (rule parse_deadline_loop_returns) simp
  moreover have "parse_fragment frag = Inl e \<Longrightarrow> exn_is ValueError e"
    by (rule parse_fragment_error)
  moreover have "snd (parse_deadline s) = Inr None
        \<Longrightarrow> last (fst (parse_deadline s)) = LWarning (''No valid deadline found in: '' @ s)"
    unfolding parse_deadline_def by (rule parse_deadline_loop_no_date)
  ultimately show ?thesis
    by (auto simp: parse_deadline_def patterns_def Let_def)
qed

theorem parse_deadline_never_aborts_witness:
  "parse_deadline ''Deadline: March 15 2024 Bewerbungsschluss: 15.03.2024''
     = ([LWarning ''Failed to parse date: March 15 2024''],
        Inr (Some \<lparr>year = 2024, month = 3, day = 15\<rparr>))
   \<and> parse_deadline ''Deadline: Foo 15, 2024''
     = ([LWarning ''Failed to parse date: Foo 15, 2024'',
         LWarning ''No valid deadline found in: Deadline: Foo 15, 2024''], Inr None)"
proof -
  let ?t = "''Deadline: March 15 2024 Bewerbungsschluss: 15.03.2024''"
  let ?u = "''Deadline: Foo 15, 2024''"
  have m1: "re_search deadline_rx ?t
      = Some ('' Bewerbungsschluss: 15.03.2024'', [(''1'', ''March 15 2024'')])"
    by (simp add: rx_eval)
  have f1: "parse_fragment ''March 15 2024''
      = Inl (Raise ValueError ''time data does not match format: March 15 2024'')"
    by (simp add: date_eval rx_eval char_eval)
  have r1: "parse_deadline_loop [schluss_rx] ?t
      = ([], Inr (Some \<lparr>year = 2024, month = 3, day = 15\<rparr>))"
    by (simp add: date_eval rx_eval char_eval)
  have m2: "re_search deadline_rx ?u = Some ([], [(''1'', ''Foo 15, 2024'')])"
    by (simp add: rx_eval)
  have f2: "parse_fragment ''Foo 15, 2024''
      = Inl (Raise ValueError ''time data does not match format: Foo 15, 2024'')"
    by (simp add: date_eval rx_eval char_eval)
  have r2: "parse_deadline_loop [schluss_rx] ?u
      = ([LWarning ''No valid deadline found in: Deadline: Foo 15, 2024''], Inr None)"
    by (simp add: date_eval rx_eval char_eval)
  show ?thesis
    using parse_deadline_never_aborts [where s = ?t and p = deadline_rx
        and ps = "[schluss_rx]" and m = "('' Bewerbungsschluss: 15.03.2024'', [(''1'', ''March 15 2024'')])"
        and frag = "''March 15 2024''"
        and e = "Raise ValueError ''time data does not match format: March 15 2024''"]
      parse_deadline_never_aborts [where s = ?u and p = deadline_rx
        and ps = "[schluss_rx]" and m = "([], [(''1'', ''Foo 15, 2024'')])"
        and frag = "''Foo 15, 2024''"
        and e = "Raise ValueError ''time data does not match format: Foo 15, 2024''"]
      m1 f1 r1 m2 f2 r2
    by (simp add: match_group_def)
qed

lemma deadline_match_A:
  "re_match deadline_rx (''Deadline: March 15, 2024'' @ post)
     = Some (post, [(''1'', ''March 15, 2024'')])"
  by (simp add: rx_eval)

lemma schluss_match_B:
  "re_match schluss_rx (''Bewerbungsschluss: 15.03.2024'' @ post)
     = Some (post, [(''1'', ''15.03.2024'')])"
  by (simp add: rx_eval)

lemma fragment_A: "parse_fragment ''March 15, 2024'' = Inr \<lparr>year = 2024, month = 3, day = 15\<rparr>"
  by (simp add: date_eval rx_eval char_eval)

lemma fragment_B: "parse_fragment ''15.03.2024'' = Inr \<lparr>year = 2024, month = 3, day = 15\<rparr>"
  by (simp add: date_eval rx_eval char_eval)

lemma parse_deadline_loop_pass:
  "snd (parse_deadline_loop [p] s) = Inr None
   \<Longrightarrow> snd (parse_deadline_loop (p # ps) s) = snd (parse_deadline_loop ps s)"
  by (auto simp: Let_def split: option.splits sum.splits if_splits)

text \<open>
  Claim C7, as amended. The first pattern that matches wins, at its leftmost match. A text
  that contains \<^verbatim>\<open>Deadline: March 15, 2024\<close> gives 2024-03-15 when the Deadline pattern
  matches at no earlier position. A text that contains \<^verbatim>\<open>Bewerbungsschluss: 15.03.2024\<close>
  gives 2024-03-15 when the Deadline pattern gives no date on the text and the
  Bewerbungsschluss pattern matches at no earlier position.
\<close>

theorem parse_deadline_first_match:
  "((\<forall>i<length pre. re_match deadline_rx (drop i (pre @ ''Deadline: March 15, 2024'' @ post)) = None)
      \<longrightarrow> parse_deadline (pre @ ''Deadline: March 15, 2024'' @ post)
         = ([], Inr (Some \<lparr>year = 2024, month = 3, day = 15\<rparr>)))
   \<and> (snd (parse_deadline_loop [deadline_rx] (pre @ ''Bewerbungsschluss: 15.03.2024'' @ post)) = Inr None
       \<and> (\<forall>i<length pre. re_match schluss_rx (drop i (pre @ ''Bewerbungsschluss: 15.03.2024'' @ post)) = None)
      \<longrightarrow> snd (parse_deadline (pre @ ''Bewerbungsschluss: 15.03.2024'' @ post))
         = Inr (Some \<lparr>year = 2024, month = 3, day = 15\<rparr>))"
proof (intro conjI impI)
  let ?a = "''Deadline: March 15, 2024'' @ post"
  assume "\<forall>i<length pre. re_match deadline_rx (drop i (pre @ ''Deadline: March 15, 2024'' @ post)) = None"
  then have "re_search deadline_rx (pre @ ?a) = re_search deadline_rx ?a"
    by (rule re_search_skip)
  also have "\<dots> = Some (post, [(''1'', ''March 15, 2024'')])"
    by (rule re_search_hit) (rule deadline_match_A)
  finally have "parse_deadline_loop (deadline_rx # [schluss_rx]) (pre @ ?a)
      = ([], Inr (Some \<lparr>year = 2024, month = 3, day = 15\<rparr>))"
    using fragment_A by (simp add: match_group_def)
  then show "parse_deadline (pre @ ?a) = ([], Inr (Some \<lparr>year = 2024, month = 3, day = 15\<rparr>))"
    by (simp add: parse_deadline_def patterns_def)
next
  let ?b = "''Bewerbungsschluss: 15.03.2024'' @ post"
  assume h: "snd (parse_deadline_loop [deadline_rx] (pre @ ?b)) = Inr None
       \<and> (\<forall>i<length pre. re_match schluss_rx (drop i (pre @ ?b)) = None)"
  then have "re_search schluss_rx (pre @ ?b) = re_search schluss_rx ?b"
    by (intro re_search_skip) simp
  also have "\<dots> = Some (post, [(''1'', ''15.03.2024'')])"
    by (rule re_search_hit) (rule schluss_match_B)
  finally have "parse_deadline_loop (schluss_rx # []) (pre @ ?b)
      = ([], Inr (Some \<lparr>year = 2024, month = 3, day = 15\<rparr>))"
    using fragment_B by (simp add: match_group_def)
  moreover from h have "snd (parse_deadline_loop (deadline_rx # [schluss_rx]) (pre @ ?b))
      = snd (parse_deadline_loop [schluss_rx] (pre @ ?b))"
    by (intro parse_deadline_loop_pass) simp
  ultimately show "snd (parse_deadline (pre @ ?b)) = Inr (Some \<lparr>year = 2024, month = 3, day = 15\<rparr>)"
    by (simp add: parse_deadline_def patterns_def)
qed

theorem parse_deadline_first_match_witness:
  "parse_deadline ''Job. Deadline: March 15, 2024 (noon)''
     = ([], Inr (Some \<lparr>year = 2024, month = 3, day = 15\<rparr>))
   \<and> snd (parse_deadline ''Deadline: March 15 2024. Bewerbungsschluss: 15.03.2024!'')
     = Inr (Some \<lparr>year = 2024, month = 3, day = 15\<rparr>)"
proof -
  have a: "\<forall>i<length ''Job. ''. re_match deadline_rx
      (drop i (''Job. '' @ ''Deadline: March 15, 2024'' @ '' (noon)'')) = None"
    by (simp add: All_less_Suc rx_eval)
  have b1: "snd (parse_deadline_loop [deadline_rx]
      (''Deadline: March 15 2024. '' @ ''Bewerbungsschluss: 15.03.2024'' @ ''!'')) = Inr None"
    by (simp add: date_eval rx_eval char_eval)
  have b2: "\<forall>i<length ''Deadline: March 15 2024. ''. re_match schluss_rx
      (drop i (''Deadline: March 15 2024. '' @ ''Bewerbungsschluss: 15.03.2024'' @ ''!'')) = None"
    by (simp add: All_less_Suc rx_eval)
  show ?thesis
    using parse_deadline_first_match [where pre = "''Job. ''" and post = "'' (noon)''"]
      parse_deadline_first_match [where pre = "''Deadline: March 15 2024. ''" and post = "''!''"]
      a b1 b2
    by simp
qed

text \<open>
  The claim as stated, for every text containing the fragment, fails: an earlier
  \<^verbatim>\<open>Deadline:\<close> date is returned instead, and a \<^verbatim>\<open>Deadline:\<close> date anywhere in the text is
  preferred to the \<^verbatim>\<open>Bewerbungsschluss:\<close> date.
\<close>

theorem parse_deadline_first_match_counterexample:
  "snd (parse_deadline ''Deadline: May 01, 2023. Deadline: March 15, 2024'')
     = Inr (Some \<lparr>year = 2023, month = 5, day = 1\<rparr>)
   \<and> snd (parse_deadline ''Deadline: May 01, 2023. Deadline: March 15, 2024'')
     \<noteq> Inr (Some \<lparr>year = 2024, month = 3, day = 15\<rparr>)
   \<and> snd (parse_deadline ''Bewerbungsschluss: 15.03.2024, Deadline: March 16, 2025'')
     = Inr (Some \<lparr>year = 2025, month = 3, day = 16\<rparr>)
   \<and> snd (parse_deadline ''Bewerbungsschluss: 15.03.2024, Deadline: March 16, 2025'')
     \<noteq> Inr (Some \<lparr>year = 2024, month = 3, day = 15\<rparr>)"
  by (simp add: date_eval rx_eval char_eval)

lemma is_word_not_space: "is_word c \<Longrightarrow> \<not> is_space c"
  by (auto simp: is_word_def is_alnum_def is_digit_def is_space_def ord_def)

lemma star_word_then_space:
  "list_all is_word u \<Longrightarrow>
   rx_all (Seq (Chr CHR '' '') R) (star_run is_word (u @ CHR '' '' # v) g) = rx_run R v g"
proof (induction u)
  case Nil
  then show ?case by simp
next
  case (Cons c u)
  then have "is_word c" by simp
  then have "c \<noteq> CHR '' ''" by (auto dest: is_word_not_space)
  with Cons show ?case by (simp add: rx_all_append)
qed

lemma plus_word_then_space:
  assumes "u \<noteq> []" and "list_all is_word u"
  shows "rx_run (Seq (Plus is_word) (Seq (Chr CHR '' '') R)) (u @ CHR '' '' # v) g = rx_run R v g"
proof -
  from assms obtain c u' where u: "u = c # u'" "is_word c" "list_all is_word u'"
    by (cases u) auto
  then show ?thesis by (simp add: star_word_then_space)
qed

lemma deadline_single_digit_day:
  assumes "mon \<noteq> []" and "list_all is_word mon"
  shows "re_match deadline_rx (''Deadline: '' @ mon @ '' '' @ [d] @ '','' @ rest) = None"
proof -
  from assms obtain c u where mon: "mon = c # u" "is_word c"
    by (cases mon) auto
  then have c: "\<not> is_space c" by (auto dest: is_word_not_space)
  have inner: "rx_run (Seq (Plus is_word) (Seq (Chr CHR '' '') R)) (mon @ CHR '' '' # v) g = rx_run R v g"
    for R v g using assms by (rule plus_word_then_space)
  have sp: "rx_run (Plus is_word) (CHR '' '' # v) g = []" for v g
    by simp
  show ?thesis
    using c inner [of _ "d # CHR '','' # rest"]
    by (simp add: re_match_def deadline_rx_def mon sp del: rx_run.simps(8))
qed


text \<open>
  Claim C10. The Deadline pattern asks for two digits of the day. A text whose only date
  is a month-name date with a one-digit day, as in \<^verbatim>\<open>Deadline: March 5, 2024\<close>, gives no
  date: the pattern does not match at that date, whatever follows it, and when neither
  pattern matches anywhere else in the text the result is no date, with the warning.
\<close>

theorem single_digit_day_not_parsed:
  assumes "mon \<noteq> []" and "list_all is_word mon" and "is_digit d"
    and raw: "raw = pre @ ''Deadline: '' @ mon @ '' '' @ [d] @ '', '' @ yr @ post"
    and before: "\<forall>i<length pre. re_match deadline_rx (drop i raw) = None"
    and after: "re_search deadline_rx (drop (Suc (length pre)) raw) = None"
    and other: "re_search schluss_rx raw = None"
  shows "parse_deadline raw = ([LWarning (''No valid deadline found in: '' @ raw)], Inr None)"
proof -
  let ?frag = "''Deadline: '' @ mon @ '' '' @ [d] @ '', '' @ yr @ post"
  have here: "re_match deadline_rx ?frag = None"
    using deadline_single_digit_day [OF assms(1,2), of d "'' '' @ yr @ post"] by simp
  have "re_search deadline_rx raw = re_search deadline_rx ?frag"
    using before unfolding raw by (rule re_search_skip)
  also have "\<dots> = re_search deadline_rx (tl ?frag)"
    using here by simp
  also have "tl ?frag = drop (Suc (length pre)) raw"
    by (simp add: raw)
  finally have "re_search deadline_rx raw = None"
    using after by simp
  with other show ?thesis
    by (simp add: parse_deadline_def patterns_def)
qed

theorem single_digit_day_not_parsed_witness:
  "parse_deadline ''Job. Deadline: March 5, 2024 (noon)''
     = ([LWarning ''No valid deadline found in: Job. Deadline: March 5, 2024 (noon)''], Inr None)"
proof -
  have w: "list_all is_word ''March''" and d: "is_digit CHR ''5''"
    by simp_all
  have b: "\<forall>i<length ''Job. ''. re_match deadline_rx
      (drop i ''Job. Deadline: March 5, 2024 (noon)'') = None"
    by (simp add: All_less_Suc rx_eval)
  have a: "re_search deadline_rx
      (drop (Suc (length ''Job. '')) ''Job. Deadline: March 5, 2024 (noon)'') = None"
    by (simp add: rx_eval)
  have o: "re_search schluss_rx ''Job. Deadline: March 5, 2024 (noon)'' = None"
    by (simp add: rx_eval)
  show ?thesis
    using single_digit_day_not_parsed [where mon = "''March''" and d = "CHR ''5''"
        and pre = "''Job. ''" and yr = "''2024''" and post = "'' (noon)''"
        and raw = "''Job. Deadline: March 5, 2024 (noon)''"] w d b a o
    by simp
qed

section \<open>The reference number\<close>










section \<open>The loop over the candidates\<close>


lemma select_id_None: "select_id c i = None \<longleftrightarrow> i \<notin> row_id ` set (working c)"
proof -
  have "select_id c i = None \<longleftrightarrow> filter (\<lambda>r. row_id r = i) (working c) = []"
    by (simp add: select_id_def split: list.splits)
  also have "\<dots> \<longleftrightarrow> i \<notin> row_id ` set (working c)"
    by (auto simp: filter_empty_conv)
  finally show ?thesis .
qed

lemma insert_row_new:
  "row_id r \<notin> row_id ` set (working c) \<Longrightarrow> insert_row c r = Inr (c\<lparr>working := working c @ [r]\<rparr>)"
  by (simp add: insert_row_def)


lemma process_job_failed:
  assumes "job_id j \<notin> row_id ` set (working c)"
    and "fst (snd (process_pdf w (pdf_url j) fs)) = Inl e"
  shows "process_job w j (c, fs)
     = (LInfo (''Processing new job ad: '' @ job_id j @ '' - '' @ title j)
          # fst (process_pdf w (pdf_url j) fs)
          @ [LError (''Error processing PDF for job '' @ job_id j @ '': '' @ exn_str e)],
        c, snd (snd (process_pdf w (pdf_url j) fs)))"
  using assms by (simp add: process_job_def select_id_None Let_def)

lemma process_job_inserted:
  assumes "job_id j \<notin> row_id ` set (working c)"
    and "fst (snd (process_pdf w (pdf_url j) fs)) = Inr t"
  shows "process_job w j (c, fs)
     = (LInfo (''Processing new job ad: '' @ job_id j @ '' - '' @ title j)
          # fst (process_pdf w (pdf_url j) fs)
          @ [LInfo (''Inserted new job ad: '' @ job_id j)],
        c\<lparr>working := working c @ [job_row j t]\<rparr>, snd (snd (process_pdf w (pdf_url j) fs)))"
proof -
  have "row_id (job_row j t) \<notin> row_id ` set (working c)"
    using assms(1) by (simp add: job_row_def)
  then have "insert_row c (job_row j t) = Inr (c\<lparr>working := working c @ [job_row j t]\<rparr>)"
    by (rule insert_row_new)
  with assms show ?thesis
    by (simp add: process_job_def select_id_None Let_def)
qed

lemma process_pdf_log_no_error: "filter is_error (fst (process_pdf w url fs)) = []"
  by (simp add: process_pdf_def Let_def split: sum.splits option.splits)


lemma process_job_committed: "committed (fst (snd (process_job w j (c, fs)))) = committed c"
  by (simp add: process_job_def insert_row_def Let_def split: sum.splits)




section \<open>Runs of the pipeline\<close>

lemma example_listing:
  "scrape_job_ads example_world example_page ''https://jobs''
     = ([LInfo ''Job type found: Stellen'',
         LInfo ''Found job ad: ID=AB123, Title=Research Assistant, Deadline=2024-03-15'',
         LInfo ''Found job ad: ID=506f7374646f63323032342d30332d3135, Title=Postdoc, Deadline=2024-03-15'',
         LWarning ''No valid deadline found in: Professor'',
         LInfo ''Found job ad: ID=50726f666573736f72, Title=Professor, Deadline=None'',
         LInfo ''Total job ads found: 3''],
        Inr [\<lparr>job_id = ''AB123'', title = ''Research Assistant'',
               pdf_url = ''https://jobs/a.pdf'', job_type = ''Stellen'',
               deadline = Some \<lparr>year = 2024, month = 3, day = 15\<rparr>\<rparr>,
             \<lparr>job_id = ''506f7374646f63323032342d30332d3135'', title = ''Postdoc'',
               pdf_url = ''https://jobs/b.pdf'', job_type = ''Stellen'',
               deadline = Some \<lparr>year = 2024, month = 3, day = 15\<rparr>\<rparr>,
             \<lparr>job_id = ''50726f666573736f72'', title = ''Professor'',
               pdf_url = ''https://jobs/c.pdf'', job_type = ''Stellen'',
               deadline = None\<rparr>])"
  by (simp add: soup_eval rx_eval date_eval char_eval example_eval)





text \<open>
  Claim C4. Three new candidates with different identifiers, the document of the second
  cannot be read: the loop stages the rows of the first and the third, in this order, and
  logs one error, which names the second; the run commits these two rows and no row has
  the identifier of the second. In general a candidate whose document cannot be read
  leaves the connection as it was.
\<close>

theorem partial_batch_isolation:
  assumes new: "job_id j1 \<notin> row_id ` set (working c)" "job_id j2 \<notin> row_id ` set (working c)"
      "job_id j3 \<notin> row_id ` set (working c)"
    and dist: "distinct [job_id j1, job_id j2, job_id j3]"
    and ok1: "\<forall>fs. fst (snd (process_pdf w (pdf_url j1) fs)) = Inr t1"
    and bad2: "\<forall>fs. fst (snd (process_pdf w (pdf_url j2) fs)) = Inl e"
    and ok3: "\<forall>fs. fst (snd (process_pdf w (pdf_url j3) fs)) = Inr t3"
    and listing: "snd (get_content w p) = Inr cb" "html_parser w (fst cb) = Inr soup"
      "snd (scrape_job_ads w soup (snd cb)) = Inr [j1, j2, j3]"
  shows "working (fst (snd (process_jobs w [j1, j2, j3] (c, fs))))
       = working c @ [job_row j1 t1, job_row j3 t3]
     \<and> filter is_error (fst (process_jobs w [j1, j2, j3] (c, fs)))
       = [LError (''Error processing PDF for job '' @ job_id j2 @ '': '' @ exn_str e)]
     \<and> committed (fst (snd (process_input w p (c, fs))))
       = working c @ [job_row j1 t1, job_row j3 t3]
     \<and> job_id j2 \<notin> row_id ` set (committed (fst (snd (process_input w p (c, fs)))))
     \<and> (\<forall>j c' fs' e'. fst (snd (process_pdf w (pdf_url j) fs')) = Inl e'
           \<longrightarrow> fst (snd (process_job w j (c', fs'))) = c')"
proof -
  let ?c1 = "c\<lparr>working := working c @ [job_row j1 t1]\<rparr>"
  let ?c3 = "c\<lparr>working := working c @ [job_row j1 t1, job_row j3 t3]\<rparr>"
  let ?fs1 = "snd (snd (process_pdf w (pdf_url j1) fs))"
  let ?fs2 = "snd (snd (process_pdf w (pdf_url j2) ?fs1))"
  let ?fs3 = "snd (snd (process_pdf w (pdf_url j3) ?fs2))"
  have s1: "process_job w j1 (c, fs)
     = (LInfo (''Processing new job ad: '' @ job_id j1 @ '' - '' @ title j1)
          # fst (process_pdf w (pdf_url j1) fs)
          @ [LInfo (''Inserted new job ad: '' @ job_id j1)], ?c1, ?fs1)"
    using new(1) ok1 by (intro process_job_inserted) auto
  have n2: "job_id j2 \<notin> row_id ` set (working ?c1)"
    using new(2) dist by (auto simp: job_row_def)
  have s2: "process_job w j2 (?c1, ?fs1)
     = (LInfo (''Processing new job ad: '' @ job_id j2 @ '' - '' @ title j2)
          # fst (process_pdf w (pdf_url j2) ?fs1)
          @ [LError (''Error processing PDF for job '' @ job_id j2 @ '': '' @ exn_str e)],
        ?c1, ?fs2)"
    using n2 bad2 by (intro process_job_failed) auto
  have n3: "job_id j3 \<notin> row_id ` set (working ?c1)"
    using new(3) dist by (auto simp: job_row_def)
  have s3: "process_job w j3 (?c1, ?fs2)
     = (LInfo (''Processing new job ad: '' @ job_id j3 @ '' - '' @ title j3)
          # fst (process_pdf w (pdf_url j3) ?fs2)
          @ [LInfo (''Inserted new job ad: '' @ job_id j3)], ?c3, ?fs3)"
    using process_job_inserted [OF n3, of w ?fs2 t3] ok3 by simp
  have run: "process_jobs w [j1, j2, j3] (c, fs)
     = (fst (process_job w j1 (c, fs)) @ fst (process_job w j2 (?c1, ?fs1))
          @ fst (process_job w j3 (?c1, ?fs2)), ?c3, ?fs3)"
    by (simp add: Let_def s1 s2 s3)
  have rows: "working (fst (snd (process_jobs w [j1, j2, j3] (c, fs))))
       = working c @ [job_row j1 t1, job_row j3 t3]"
    unfolding run by simp
  have errs: "filter is_error (fst (process_jobs w [j1, j2, j3] (c, fs)))
       = [LError (''Error processing PDF for job '' @ job_id j2 @ '': '' @ exn_str e)]"
    unfolding run s1 s2 s3 by (simp add: process_pdf_log_no_error)
  have com: "committed (fst (snd (process_input w p (c, fs))))
       = working c @ [job_row j1 t1, job_row j3 t3]"
    using listing rows by (simp add: process_input_def commit_def Let_def del: process_jobs.simps)
  have absent: "job_id j2 \<notin> row_id ` set (committed (fst (snd (process_input w p (c, fs)))))"
    unfolding com using new(2) dist by (auto simp: job_row_def)
  have iso: "\<forall>j c' fs' e'. fst (snd (process_pdf w (pdf_url j) fs')) = Inl e'
           \<longrightarrow> fst (snd (process_job w j (c', fs'))) = c'"
    by (simp add: process_job_def Let_def)
  from rows errs com absent iso show ?thesis by blast
qed


theorem partial_batch_isolation_witness:
  "committed (fst (snd (process_input example_world ''https://jobs''
       (\<lparr>committed = [], working = []\<rparr>, []))))
     = [\<lparr>row_id = ''AB123'', row_title = ''Research Assistant'',
          full_text = ''Full text of the advertisement'', row_job_type = ''Stellen'',
          row_deadline = Some \<lparr>year = 2024, month = 3, day = 15\<rparr>\<rparr>,
        \<lparr>row_id = ''50726f666573736f72'', row_title = ''Professor'',
          full_text = ''Full text of the advertisement'', row_job_type = ''Stellen'',
          row_deadline = None\<rparr>]
   \<and> filter is_error (fst (process_jobs example_world
        [\<lparr>job_id = ''AB123'', title = ''Research Assistant'',
            pdf_url = ''https://jobs/a.pdf'', job_type = ''Stellen'',
            deadline = Some \<lparr>year = 2024, month = 3, day = 15\<rparr>\<rparr>,
         \<lparr>job_id = ''506f7374646f63323032342d30332d3135'', title = ''Postdoc'',
            pdf_url = ''https://jobs/b.pdf'', job_type = ''Stellen'',
            deadline = Some \<lparr>year = 2024, month = 3, day = 15\<rparr>\<rparr>,
         \<lparr>job_id = ''50726f666573736f72'', title = ''Professor'',
            pdf_url = ''https://jobs/c.pdf'', job_type = ''Stellen'',
            deadline = None\<rparr>] (\<lparr>committed = [], working = []\<rparr>, [])))
     = [LError ''Error processing PDF for job 506f7374646f63323032342d30332d3135: connection refused'']"
proof -
  let ?j1 = "\<lparr>job_id = ''AB123'', title = ''Research Assistant'',
            pdf_url = ''https://jobs/a.pdf'', job_type = ''Stellen'',
            deadline = Some \<lparr>year = 2024, month = 3, day = 15\<rparr>\<rparr>"
  let ?j2 = "\<lparr>job_id = ''506f7374646f63323032342d30332d3135'', title = ''Postdoc'',
            pdf_url = ''https://jobs/b.pdf'', job_type = ''Stellen'',
            deadline = Some \<lparr>year = 2024, month = 3, day = 15\<rparr>\<rparr>"
  let ?j3 = "\<lparr>job_id = ''50726f666573736f72'', title = ''Professor'',
            pdf_url = ''https://jobs/c.pdf'', job_type = ''Stellen'',
            deadline = None\<rparr>"
  let ?c = "\<lparr>committed = [], working = []\<rparr>"
  have new: "job_id ?j1 \<notin> row_id ` set (working ?c)" "job_id ?j2 \<notin> row_id ` set (working ?c)"
      "job_id ?j3 \<notin> row_id ` set (working ?c)"
    by simp_all
  have dist: "distinct [job_id ?j1, job_id ?j2, job_id ?j3]"
    by simp
  have ok1: "\<forall>fs. fst (snd (process_pdf example_world (pdf_url ?j1) fs))
      = Inr ''Full text of the advertisement''"
    by (simp add: process_pdf_def raise_for_status_def example_world_def Let_def)
  have bad2: "\<forall>fs. fst (snd (process_pdf example_world (pdf_url ?j2) fs))
      = Inl (Raise ConnectionError ''connection refused'')"
    by (simp add: process_pdf_def example_world_def Let_def)
  have ok3: "\<forall>fs. fst (snd (process_pdf example_world (pdf_url ?j3) fs))
      = Inr ''Full text of the advertisement''"
    by (simp add: process_pdf_def raise_for_status_def example_world_def Let_def)
  have l1: "snd (get_content example_world ''https://jobs'')
      = Inr (Bytes (encode ''%PDF''), ''https://jobs'')"
    by (simp add: get_content_def startswith_def raise_for_status_def example_world_def Let_def)
  have l2: "html_parser example_world (fst (Bytes (encode ''%PDF''), ''https://jobs'')) = Inr example_page"
    by (simp add: example_world_def)
  have l3: "snd (scrape_job_ads example_world example_page
      (snd (Bytes (encode ''%PDF''), ''https://jobs''))) = Inr [?j1, ?j2, ?j3]"
    by (simp add: example_listing)
  show ?thesis
    using partial_batch_isolation [OF new dist ok1 bad2 ok3 l1 l2 l3, of "[]"]
    by (simp add: job_row_def)
qed

end
